theory Spec2Isabelle
  imports Complex_Main "HOL-Library.AList" "HOL-Library.Char_ord" "HOL-Library.List_Lexorder"
begin

section \<open>Data model\<close>

text \<open>
  The models of the inventory, orders, accounting and bookings applications, restricted to
  the columns that the stock, order, payment and reservation cascades read or write.
  A Python \<open>Decimal\<close> is a rational number: the sums, the products and the division by
  100 that the code performs in memory are exact. A \<open>CharField\<close> with choices holds a
  string and is compared with string literals, as in the source. A primary key is a natural
  number; an instance that has not been saved yet has \<open>pk = None\<close>.
  \<open>timezone.now()\<close> is a parameter of every operation that reads the clock: a pair of a
  day number and the seconds elapsed in that day, and \<open>.date()\<close> is its first component.

  A foreign key is the primary key of the row it points to. Where the code mutates the
  related object and saves it (\<open>self.product\<close> of a StockMovement, \<open>self.invoice\<close> of a
  Payment) the instance also carries the related object it was built with, if any: the
  code then works on that object, whatever the store holds, and fetches the row only when
  the instance carries none. Related objects that the code only reads
  (\<open>self.menu_item\<close>, \<open>self.order\<close>, \<open>ingredient.product\<close>) are read from the store.
\<close>

type_synonym decimal = rat
type_synonym date = int
type_synonym datetime = "int \<times> nat"

definition date_of :: "datetime \<Rightarrow> date" where
  "date_of now = fst now"

datatype error = DoesNotExist | IntegrityError | InvalidOperation

text \<open>inventory/models.py: Product\<close>

record Product =
  quantity_in_stock :: decimal
  minimum_stock :: decimal
  optimal_stock :: decimal
  unit_price :: decimal

text \<open>
  inventory/models.py: StockMovement. \<open>sm_product_id\<close> is the foreign key,
  \<open>sm_product\<close> the Product object attached to the instance, if any.
\<close>

record StockMovement =
  sm_pk :: "nat option"
  sm_product_id :: nat
  sm_product :: "Product option"
  movement_type :: string
  sm_quantity :: decimal
  sm_unit_price :: decimal
  sm_reference :: string
  sm_reason :: string
  sm_created_by :: "nat option"

text \<open>orders/models.py: MenuItem, MenuItemIngredient, Order, OrderItem\<close>

record MenuItem =
  mi_name :: string
  mi_price :: decimal
  track_inventory :: bool

record MenuItemIngredient =
  ing_menu_item :: nat
  ing_product :: nat
  quantity_needed :: decimal

record Order =
  o_pk :: nat
  order_number :: string
  o_status :: string
  paid_at :: "datetime option"
  subtotal :: decimal
  tax_rate :: decimal
  tax_amount :: decimal
  discount_amount :: decimal
  total_amount :: decimal
  o_created_by :: "nat option"
  served_by :: "nat option"

record OrderItem =
  oi_pk :: "nat option"
  oi_order :: nat
  oi_menu_item :: nat
  oi_quantity :: int
  oi_unit_price :: decimal

text \<open>accounting/models.py: AccountCategory, Transaction, Invoice, Payment\<close>

record AccountCategory =
  ac_code :: string
  account_type :: string

record Transaction =
  t_pk :: "nat option"
  transaction_number :: string
  transaction_type :: string
  t_category :: nat
  t_date :: date
  t_amount :: decimal
  t_payment_method :: string
  t_description :: string
  t_created_by :: "nat option"

record Invoice =
  due_date :: date
  inv_subtotal :: decimal
  inv_tax_rate :: decimal
  inv_tax_amount :: decimal
  inv_total_amount :: decimal
  paid_amount :: decimal
  inv_status :: string

text \<open>
  Payment: \<open>p_invoice_id\<close> is the foreign key, \<open>p_invoice\<close> the Invoice object attached
  to the instance, if any.
\<close>

record Payment =
  p_pk :: "nat option"
  payment_number :: string
  p_invoice_id :: nat
  p_invoice :: "Invoice option"
  p_amount :: decimal

text \<open>bookings/models.py: Reservation (the table is a nullable foreign key)\<close>

record Reservation =
  r_pk :: "nat option"
  reservation_number :: string
  reservation_date :: date
  time_slot :: string
  r_table :: "nat option"
  r_status :: string

text \<open>
  The relational store. Tables that are only read through a foreign key, or rewritten row
  by row, are maps from the primary key; tables that are queried, or that receive new
  rows, are lists of rows in insertion order, each with its primary key.
\<close>

record database =
  products :: "nat \<rightharpoonup> Product"
  stock_movements :: "(nat \<times> StockMovement) list"
  menu_items :: "nat \<rightharpoonup> MenuItem"
  ingredients :: "(nat \<times> MenuItemIngredient) list"
  orders :: "nat \<rightharpoonup> Order"
  order_items :: "(nat \<times> OrderItem) list"
  account_categories :: "(nat \<times> AccountCategory) list"
  transactions :: "(nat \<times> Transaction) list"
  invoices :: "nat \<rightharpoonup> Invoice"
  payments :: "(nat \<times> Payment) list"
  reservations :: "(nat \<times> Reservation) list"

text \<open>
  The outcome of an operation on the store: on the right the store it leaves and the value
  it returns, on the left the exception it raises and the store as the writes made before
  the raise have left it. The source wraps no two writes in one transaction, so every
  \<open>save()\<close> that has returned stays written.
\<close>

type_synonym 'a outcome = "(error \<times> database) + (database \<times> 'a)"

definition store_of :: "'a outcome \<Rightarrow> database" where
  "store_of r = (case r of Inl (e, db) \<Rightarrow> db | Inr (db, x) \<Rightarrow> db)"

text \<open>The key an auto-increment column gives to the next inserted row.\<close>

definition next_pk :: "(nat \<times> 'a) list \<Rightarrow> nat" where
  "next_pk rows = Suc (fold max (map fst rows) 0)"

section \<open>Decimal columns\<close>

text \<open>
  Every DecimalField of these models has \<open>decimal_places=2\<close>. When a row is written, the
  field's value goes through \<open>value.quantize(Decimal('0.01'))\<close> under a context whose
  precision is the field's \<open>max_digits\<close>: the value is rounded to two places, half to
  even, and \<open>decimal.InvalidOperation\<close> is raised when the rounded value needs more than
  \<open>max_digits\<close> digits. The instance in memory keeps the value it had.
\<close>

definition quantize :: "decimal \<Rightarrow> decimal" where
  "quantize x =
     (let n = \<lfloor>x * 100\<rfloor>; r = x * 100 - of_int n
      in if r < 1 / 2 then of_int n / 100
         else if 1 / 2 < r then of_int (n + 1) / 100
         else if even n then of_int n / 100
         else of_int (n + 1) / 100)"

definition fits :: "nat \<Rightarrow> decimal \<Rightarrow> bool" where
  "fits max_digits x = (\<bar>quantize x * 100\<bar> < 10 ^ max_digits)"

section \<open>Stock ledger (inventory/models.py)\<close>

text \<open>Product.stock_status\<close>

definition stock_status :: "Product \<Rightarrow> string" where
  "stock_status self =
     (if quantity_in_stock self \<le> 0 then ''OUT_OF_STOCK''
      else if quantity_in_stock self < minimum_stock self then ''LOW_STOCK''
      else if quantity_in_stock self < optimal_stock self then ''NORMAL''
      else ''OPTIMAL'')"

text \<open>
  The inherited \<open>Model.save\<close> of a Product that has the primary key \<open>pk\<close>: its four
  DecimalField(10, 2) columns are prepared, then the row of that key is written.
\<close>

definition Product_fits :: "Product \<Rightarrow> bool" where
  "Product_fits self =
     (fits 10 (quantity_in_stock self) \<and> fits 10 (minimum_stock self)
      \<and> fits 10 (optimal_stock self) \<and> fits 10 (unit_price self))"

definition Product_row :: "Product \<Rightarrow> Product" where
  "Product_row self =
     \<lparr>quantity_in_stock = quantize (quantity_in_stock self),
      minimum_stock = quantize (minimum_stock self),
      optimal_stock = quantize (optimal_stock self),
      unit_price = quantize (unit_price self)\<rparr>"

definition Product_save :: "database \<Rightarrow> nat \<Rightarrow> Product \<Rightarrow> unit outcome" where
  "Product_save db pk self =
     (if \<not> Product_fits self then Inl (InvalidOperation, db)
      else Inr (db\<lparr>products := (products db)(pk \<mapsto> Product_row self)\<rparr>, ()))"

text \<open>
  The inherited \<open>Model.save\<close> of a StockMovement. The two DecimalField(10, 2) columns are
  prepared; the row must point to a product of the store; an instance without a primary
  key is inserted under a fresh key, an instance with one replaces the row of that key.
  The row keeps the foreign key, not the attached object.
\<close>

definition StockMovement_fits :: "StockMovement \<Rightarrow> bool" where
  "StockMovement_fits self = (fits 10 (sm_quantity self) \<and> fits 10 (sm_unit_price self))"

definition StockMovement_row :: "StockMovement \<Rightarrow> StockMovement" where
  "StockMovement_row self =
     self\<lparr>sm_product := None, sm_quantity := quantize (sm_quantity self),
          sm_unit_price := quantize (sm_unit_price self)\<rparr>"

definition StockMovement_super_save ::
  "database \<Rightarrow> StockMovement \<Rightarrow> StockMovement outcome" where
  "StockMovement_super_save db self =
     (if \<not> StockMovement_fits self then Inl (InvalidOperation, db)
      else if products db (sm_product_id self) = None then Inl (IntegrityError, db)
      else
        (case sm_pk self of
           None \<Rightarrow>
             (let k = next_pk (stock_movements db); self' = self\<lparr>sm_pk := Some k\<rparr>
              in Inr (db\<lparr>stock_movements :=
                           stock_movements db @ [(k, StockMovement_row self')]\<rparr>, self'))
         | Some k \<Rightarrow>
             Inr (db\<lparr>stock_movements :=
                        AList.update k (StockMovement_row self) (stock_movements db)\<rparr>, self)))"

text \<open>
  \<open>self.product\<close>: the attached object if the instance carries one, else the row the
  foreign key points to (none: DoesNotExist).
\<close>

definition get_product :: "database \<Rightarrow> StockMovement \<Rightarrow> Product option" where
  "get_product db self =
     (case sm_product self of
        Some product \<Rightarrow> Some product
      | None \<Rightarrow> products db (sm_product_id self))"

text \<open>
  StockMovement.save. For a new movement the related product is changed in memory
  according to the type of the movement and saved, then the movement itself is saved.
\<close>

definition StockMovement_save ::
  "database \<Rightarrow> StockMovement \<Rightarrow> StockMovement outcome" where
  "StockMovement_save db self =
     (let is_new = (sm_pk self = None) in
      if is_new then
        (case get_product db self of
           None \<Rightarrow> Inl (DoesNotExist, db)
         | Some product \<Rightarrow>
             (let product' =
                (if movement_type self = ''IN''
                   then product\<lparr>quantity_in_stock := quantity_in_stock product + sm_quantity self\<rparr>
                 else if movement_type self \<in> set [''OUT'', ''WASTE'']
                   then product\<lparr>quantity_in_stock := quantity_in_stock product - sm_quantity self\<rparr>
                 else if movement_type self = ''ADJUSTMENT''
                   then product
                 else if movement_type self = ''RETURN''
                   then product\<lparr>quantity_in_stock := quantity_in_stock product + sm_quantity self\<rparr>
                 else product);
                  self' = self\<lparr>sm_product := Some product'\<rparr>
              in case Product_save db (sm_product_id self) product' of
                   Inl err \<Rightarrow> Inl err
                 | Inr (db', _) \<Rightarrow> StockMovement_super_save db' self'))
      else StockMovement_super_save db self)"


text \<open>A sequence of movements saved one after the other; the first raise ends it.\<close>

fun save_movements :: "database \<Rightarrow> StockMovement list \<Rightarrow> unit outcome" where
  "save_movements db [] = Inr (db, ())"
| "save_movements db (m # ms) =
     (case StockMovement_save db m of
        Inl err \<Rightarrow> Inl err
      | Inr (db', _) \<Rightarrow> save_movements db' ms)"

section \<open>Order workflow (orders/models.py)\<close>

text \<open>OrderItem.total_price: an integer quantity times a Decimal price.\<close>

definition total_price :: "OrderItem \<Rightarrow> decimal" where
  "total_price self = of_int (oi_quantity self) * oi_unit_price self"

text \<open>\<open>self.items.all()\<close>: the order items whose foreign key is this order.\<close>

definition items_all :: "database \<Rightarrow> Order \<Rightarrow> OrderItem list" where
  "items_all db self =
     map snd (filter (\<lambda>(k, item). oi_order item = o_pk self) (order_items db))"

text \<open>
  Order.calculate_totals: the three assignments in the order of the source, each reading
  the fields the previous one wrote; the method returns the total and does not save.
\<close>

definition calculate_totals :: "database \<Rightarrow> Order \<Rightarrow> Order \<times> decimal" where
  "calculate_totals db self =
     (let self1 = self\<lparr>subtotal := sum_list (map total_price (items_all db self))\<rparr>;
          self2 = self1\<lparr>tax_amount := (subtotal self1 * tax_rate self1) / 100\<rparr>;
          self3 = self2\<lparr>total_amount :=
                    subtotal self2 + tax_amount self2 - discount_amount self2\<rparr>
      in (self3, total_amount self3))"

text \<open>
  \<open>Order.save\<close>. An order is taken as loaded from its table (the views fetch it by primary
  key before they call its methods), so saving rewrites the row of its key, after its
  decimal columns (\<open>tax_rate\<close> has five digits, the others ten) are prepared.
\<close>

definition Order_fits :: "Order \<Rightarrow> bool" where
  "Order_fits self =
     (fits 10 (subtotal self) \<and> fits 5 (tax_rate self) \<and> fits 10 (tax_amount self)
      \<and> fits 10 (discount_amount self) \<and> fits 10 (total_amount self))"

definition Order_row :: "Order \<Rightarrow> Order" where
  "Order_row self =
     self\<lparr>subtotal := quantize (subtotal self), tax_rate := quantize (tax_rate self),
          tax_amount := quantize (tax_amount self),
          discount_amount := quantize (discount_amount self),
          total_amount := quantize (total_amount self)\<rparr>"

definition Order_save :: "database \<Rightarrow> Order \<Rightarrow> unit outcome" where
  "Order_save db self =
     (if \<not> Order_fits self then Inl (InvalidOperation, db)
      else Inr (db\<lparr>orders := (orders db)(o_pk self \<mapsto> Order_row self)\<rparr>, ()))"







section \<open>Accounting ledger and billing chain (accounting/models.py)\<close>

text \<open>
  \<open>Transaction.objects.create(...)\<close>. The amount column is prepared; the column
  \<open>transaction_number\<close> is declared \<open>unique=True\<close>, so inserting a number that some row
  already carries raises IntegrityError, as does a category that is not in the store.
\<close>

definition Transaction_row :: "Transaction \<Rightarrow> Transaction" where
  "Transaction_row self = self\<lparr>t_amount := quantize (t_amount self)\<rparr>"

definition Transaction_objects_create ::
  "database \<Rightarrow> Transaction \<Rightarrow> Transaction outcome" where
  "Transaction_objects_create db kwargs =
     (if \<not> fits 10 (t_amount kwargs) then Inl (InvalidOperation, db)
      else if list_ex (\<lambda>(k, t). transaction_number t = transaction_number kwargs)
                (transactions db)
              \<or> \<not> list_ex (\<lambda>(k, c). k = t_category kwargs) (account_categories db)
        then Inl (IntegrityError, db)
      else
        (let k = next_pk (transactions db); self' = kwargs\<lparr>t_pk := Some k\<rparr>
         in Inr (db\<lparr>transactions := transactions db @ [(k, Transaction_row self')]\<rparr>, self')))"

text \<open>
  \<open>AccountCategory.objects.filter(account_type=...).first()\<close>. The model's Meta orders
  the categories by \<open>code\<close>, so the first one is the matching row of least code.
\<close>

definition AccountCategory_filter_first ::
  "database \<Rightarrow> string \<Rightarrow> (nat \<times> AccountCategory) option" where
  "AccountCategory_filter_first db ty =
     (case sort_key (\<lambda>(k, c). ac_code c)
             (filter (\<lambda>(k, c). account_type c = ty) (account_categories db)) of
        [] \<Rightarrow> None
      | row # _ \<Rightarrow> Some row)"

text \<open>Order.mark_paid (orders/models.py), which reaches into the accounting ledger.\<close>

definition mark_paid :: "datetime \<Rightarrow> database \<Rightarrow> Order \<Rightarrow> Order outcome" where
  "mark_paid now db self =
     (let self1 = self\<lparr>o_status := ''PAID'', paid_at := Some now\<rparr> in
      case Order_save db self1 of
        Inl err \<Rightarrow> Inl err
      | Inr (db1, _) \<Rightarrow>
          (let revenue_category = AccountCategory_filter_first db1 ''REVENUE'' in
           case revenue_category of
             None \<Rightarrow> Inr (db1, self1)
           | Some (category_pk, category) \<Rightarrow>
               (case Transaction_objects_create db1
                       \<lparr>t_pk = None,
                        transaction_number = ''TXN-'' @ order_number self1,
                        transaction_type = ''INCOME'',
                        t_category = category_pk,
                        t_date = date_of now,
                        t_amount = total_amount self1,
                        t_payment_method = ''CASH'',
                        t_description = ''Commande '' @ order_number self1,
                        t_created_by = served_by self1\<rparr> of
                  Inl err \<Rightarrow> Inl err
                | Inr (db2, _) \<Rightarrow> Inr (db2, self1))))"











section \<open>Booking chain (bookings/models.py)\<close>

text \<open>Table.is_available_at; a table is named by its primary key.\<close>

definition is_available_at :: "database \<Rightarrow> nat \<Rightarrow> date \<Rightarrow> string \<Rightarrow> bool" where
  "is_available_at db self d slot =
     (let rs = filter (\<lambda>(k, r). r_table r = Some self \<and> reservation_date r = d
                               \<and> time_slot r = slot
                               \<and> r_status r \<in> set [''PENDING'', ''CONFIRMED''])
                 (reservations db)
      in \<not> (rs \<noteq> []))"

text \<open>
  Reservation.Meta: \<open>unique_together = ['table', 'reservation_date', 'time_slot']\<close>.
  Another row with the same three values violates it, whatever the status of either row;
  a row without a table (NULL) never does.
\<close>

definition violates_unique_together :: "(nat \<times> Reservation) list \<Rightarrow> Reservation \<Rightarrow> bool" where
  "violates_unique_together rows self =
     (r_table self \<noteq> None \<and>
      list_ex (\<lambda>(k, r). Some k \<noteq> r_pk self \<and> r_table r = r_table self
                        \<and> reservation_date r = reservation_date self
                        \<and> time_slot r = time_slot self) rows)"

text \<open>\<open>reservation_number\<close> is declared \<open>unique=True\<close>.\<close>

definition violates_unique_number :: "(nat \<times> Reservation) list \<Rightarrow> Reservation \<Rightarrow> bool" where
  "violates_unique_number rows self =
     list_ex (\<lambda>(k, r). Some k \<noteq> r_pk self \<and> reservation_number r = reservation_number self)
       rows"

text \<open>Saving a Reservation (the inherited \<open>Model.save\<close>, under the two constraints).\<close>

definition Reservation_save :: "database \<Rightarrow> Reservation \<Rightarrow> Reservation outcome" where
  "Reservation_save db self =
     (if violates_unique_number (reservations db) self
         \<or> violates_unique_together (reservations db) self
      then Inl (IntegrityError, db)
      else
        (case r_pk self of
           None \<Rightarrow>
             (let k = next_pk (reservations db); self' = self\<lparr>r_pk := Some k\<rparr>
              in Inr (db\<lparr>reservations := reservations db @ [(k, self')]\<rparr>, self'))
         | Some k \<Rightarrow>
             Inr (db\<lparr>reservations := AList.update k self (reservations db)\<rparr>, self)))"

section \<open>Notions of the specification\<close>

text \<open>
  The signed quantity of a movement as the specification words it: IN and RETURN add,
  OUT and WASTE subtract, ADJUSTMENT (and anything else) contributes nothing.
\<close>

definition signed_quantity :: "StockMovement \<Rightarrow> decimal" where
  "signed_quantity m =
     (if movement_type m = ''IN'' \<or> movement_type m = ''RETURN'' then sm_quantity m
      else if movement_type m = ''OUT'' \<or> movement_type m = ''WASTE'' then - sm_quantity m
      else 0)"

text \<open>
  A value that a decimal column of \<open>max_digits\<close> digits holds unchanged: two decimals
  at most, and within the width. A product, an invoice as the store holds them: every
  decimal field is such a value.
\<close>

definition column_value :: "nat \<Rightarrow> decimal \<Rightarrow> bool" where
  "column_value max_digits x = (quantize x = x \<and> fits max_digits x)"

definition Product_stored :: "Product \<Rightarrow> bool" where
  "Product_stored p = (Product_fits p \<and> Product_row p = p)"


text \<open>
  A sequence of movements against a stock \<open>q\<close> keeps every running total within the
  width of the column.
\<close>

fun within_width :: "decimal \<Rightarrow> StockMovement list \<Rightarrow> bool" where
  "within_width q [] = True"
| "within_width q (m # ms) =
     (fits 10 (q + signed_quantity m) \<and> within_width (q + signed_quantity m) ms)"

text \<open>
  No movement of the sequence carries a stale product: when its turn to be saved comes,
  the product attached to it, if any, is the row the store holds at that moment.
\<close>

fun fresh_movements :: "database \<Rightarrow> StockMovement list \<Rightarrow> bool" where
  "fresh_movements db [] = True"
| "fresh_movements db (m # ms) =
     ((sm_product m = None \<or> sm_product m = products db (sm_product_id m))
      \<and> fresh_movements (store_of (StockMovement_save db m)) ms)"








section \<open>Example states\<close>

definition empty_db :: database where
  "empty_db =
     \<lparr>products = Map.empty, stock_movements = [], menu_items = Map.empty, ingredients = [],
      orders = Map.empty, order_items = [], account_categories = [], transactions = [],
      invoices = Map.empty, payments = [], reservations = []\<rparr>"

text \<open>A new movement built from a product key, and one built with a product attached.\<close>

definition movement :: "nat \<Rightarrow> string \<Rightarrow> decimal \<Rightarrow> StockMovement" where
  "movement pid ty q =
     \<lparr>sm_pk = None, sm_product_id = pid, sm_product = None, movement_type = ty,
      sm_quantity = q, sm_unit_price = 0, sm_reference = [], sm_reason = ''Inventaire'',
      sm_created_by = None\<rparr>"

definition movement_on :: "nat \<Rightarrow> Product \<Rightarrow> string \<Rightarrow> decimal \<Rightarrow> StockMovement" where
  "movement_on pid p ty q = (movement pid ty q)\<lparr>sm_product := Some p\<rparr>"

definition flour :: Product where
  "flour = \<lparr>quantity_in_stock = 5, minimum_stock = 10, optimal_stock = 20, unit_price = 3\<rparr>"

definition silo :: Product where
  "silo =
     \<lparr>quantity_in_stock = 99999999, minimum_stock = 0, optimal_stock = 0, unit_price = 1\<rparr>"




definition pantry_db :: database where
  "pantry_db = empty_db\<lparr>products := [1 \<mapsto> flour, 2 \<mapsto> silo]\<rparr>"

definition order_1 :: Order where
  "order_1 =
     \<lparr>o_pk = 1, order_number = ''ORD-1'', o_status = ''SERVED'', paid_at = None,
      subtotal = 25, tax_rate = 10, tax_amount = 5 / 2, discount_amount = 0,
      total_amount = 55 / 2, o_created_by = Some 1, served_by = Some 2\<rparr>"








definition bill_db :: database where
  "bill_db =
     empty_db\<lparr>orders := [1 \<mapsto> order_1],
              order_items :=
                [(1, \<lparr>oi_pk = Some 1, oi_order = 1, oi_menu_item = 1, oi_quantity = 2,
                      oi_unit_price = 10\<rparr>),
                 (2, \<lparr>oi_pk = Some 2, oi_order = 1, oi_menu_item = 2, oi_quantity = 1,
                      oi_unit_price = 5\<rparr>),
                 (3, \<lparr>oi_pk = Some 3, oi_order = 7, oi_menu_item = 2, oi_quantity = 4,
                      oi_unit_price = 5\<rparr>)]\<rparr>"

definition sales :: AccountCategory where
  "sales = \<lparr>ac_code = ''700'', account_type = ''REVENUE''\<rparr>"

definition rent :: AccountCategory where
  "rent = \<lparr>ac_code = ''600'', account_type = ''EXPENSE''\<rparr>"

definition ledger_db :: database where
  "ledger_db = empty_db\<lparr>orders := [1 \<mapsto> order_1], account_categories := [(1, rent), (2, sales)]\<rparr>"

definition no_revenue_db :: database where
  "no_revenue_db = empty_db\<lparr>orders := [1 \<mapsto> order_1], account_categories := [(1, rent)]\<rparr>"

definition order_1_paid :: Order where
  "order_1_paid = order_1\<lparr>o_status := ''PAID'', paid_at := Some (10, 0)\<rparr>"

definition income_1 :: Transaction where
  "income_1 =
     \<lparr>t_pk = Some 1, transaction_number = ''TXN-ORD-1'', transaction_type = ''INCOME'',
      t_category = 2, t_date = 10, t_amount = 55 / 2, t_payment_method = ''CASH'',
      t_description = ''Commande ORD-1'', t_created_by = Some 2\<rparr>"

definition ledger_db_paid :: database where
  "ledger_db_paid =
     empty_db\<lparr>orders := [1 \<mapsto> order_1_paid], account_categories := [(1, rent), (2, sales)],
              transactions := [(1, income_1)]\<rparr>"







definition cancelled_booking :: Reservation where
  "cancelled_booking =
     \<lparr>r_pk = Some 1, reservation_number = ''RES-1'', reservation_date = 100,
      time_slot = ''19:00'', r_table = Some 4, r_status = ''CANCELLED''\<rparr>"

definition new_booking :: Reservation where
  "new_booking =
     \<lparr>r_pk = None, reservation_number = ''RES-2'', reservation_date = 100,
      time_slot = ''19:00'', r_table = Some 4, r_status = ''PENDING''\<rparr>"

definition bookings_db :: database where
  "bookings_db = empty_db\<lparr>reservations := [(1, cancelled_booking)]\<rparr>"

section \<open>Decimal columns: what the rounding keeps\<close>

lemma quantize_cents:
  assumes "x * 100 = of_int k"
  shows "quantize x = x"
proof -
  have f: "\<lfloor>x * 100\<rfloor> = k" using assms by simp
  have "x = of_int k / 100" using assms by (simp add: field_simps)
  then show ?thesis using assms f by (simp add: quantize_def Let_def)
qed

lemma quantize_is_cents: "\<exists>k::int. quantize x * 100 = of_int k"
proof -
  have "quantize x = of_int \<lfloor>x * 100\<rfloor> / 100 \<or> quantize x = of_int (\<lfloor>x * 100\<rfloor> + 1) / 100"
    by (simp add: quantize_def Let_def)
  then show ?thesis
  proof
    assume "quantize x = of_int \<lfloor>x * 100\<rfloor> / 100"
    then have "quantize x * 100 = of_int \<lfloor>x * 100\<rfloor>" by simp
    then show ?thesis by (rule exI)
  next
    assume "quantize x = of_int (\<lfloor>x * 100\<rfloor> + 1) / 100"
    then have "quantize x * 100 = of_int (\<lfloor>x * 100\<rfloor> + 1)" by simp
    then show ?thesis by (rule exI)
  qed
qed

lemma quantize_idem: "quantize (quantize x) = quantize x"
proof -
  obtain k :: int where "quantize x * 100 = of_int k" using quantize_is_cents by blast
  then show ?thesis by (rule quantize_cents)
qed

lemma fits_quantize: "fits n (quantize x) = fits n x"
  by (simp add: fits_def quantize_idem)

lemma floor_rat_numeral:
  "\<lfloor>(numeral a :: rat) / numeral b\<rfloor> = numeral a div numeral b"
  "\<lfloor>- ((numeral a :: rat) / numeral b)\<rfloor> = - numeral a div numeral b"
  "\<lfloor>(1 :: rat) / numeral b\<rfloor> = 1 div numeral b"
  "\<lfloor>- ((1 :: rat) / numeral b)\<rfloor> = - 1 div numeral b"
proof -
  have "\<lfloor>(of_int (numeral a) :: rat) / of_int (numeral b)\<rfloor> = numeral a div numeral b"
    by (rule floor_divide_of_int_eq)
  then show "\<lfloor>(numeral a :: rat) / numeral b\<rfloor> = numeral a div numeral b" by simp
  have "\<lfloor>(of_int (- numeral a) :: rat) / of_int (numeral b)\<rfloor> = - numeral a div numeral b"
    by (rule floor_divide_of_int_eq)
  then show "\<lfloor>- ((numeral a :: rat) / numeral b)\<rfloor> = - numeral a div numeral b" by simp
  have "\<lfloor>(of_int 1 :: rat) / of_int (numeral b)\<rfloor> = 1 div numeral b"
    by (rule floor_divide_of_int_eq)
  then show "\<lfloor>(1 :: rat) / numeral b\<rfloor> = 1 div numeral b" by simp
  have "\<lfloor>(of_int (- 1) :: rat) / of_int (numeral b)\<rfloor> = - 1 div numeral b"
    by (rule floor_divide_of_int_eq)
  then show "\<lfloor>- ((1 :: rat) / numeral b)\<rfloor> = - 1 div numeral b" by simp
qed

lemma column_value_iff:
  "column_value n x = ((\<exists>k::int. x * 100 = of_int k) \<and> \<bar>x * 100\<bar> < 10 ^ n)"
proof
  assume c: "column_value n x"
  then have q: "quantize x = x" and f: "fits n x" by (simp_all add: column_value_def)
  obtain k :: int where "quantize x * 100 = of_int k" using quantize_is_cents by blast
  then have "x * 100 = of_int k" using q by simp
  then have "\<exists>k::int. x * 100 = of_int k" by (rule exI)
  moreover have "\<bar>x * 100\<bar> < 10 ^ n" using f q by (simp add: fits_def)
  ultimately show "(\<exists>k::int. x * 100 = of_int k) \<and> \<bar>x * 100\<bar> < 10 ^ n" by simp
next
  assume a: "(\<exists>k::int. x * 100 = of_int k) \<and> \<bar>x * 100\<bar> < 10 ^ n"
  then obtain k :: int where k: "x * 100 = of_int k" by blast
  have q: "quantize x = x" using k by (rule quantize_cents)
  then show "column_value n x" using a by (simp add: column_value_def fits_def)
qed

lemma column_value_quantize: "column_value n x \<Longrightarrow> quantize x = x"
  by (simp add: column_value_def)

lemma column_value_fits: "column_value n x \<Longrightarrow> fits n x"
  by (simp add: column_value_def)

lemma cents_add:
  fixes x y :: rat
  assumes "x * 100 = of_int k" and "y * 100 = of_int l"
  shows "(x + y) * 100 = of_int (k + l)" and "(x - y) * 100 = of_int (k - l)"
proof -
  have "(x + y) * 100 = x * 100 + y * 100" by (simp add: algebra_simps)
  then show "(x + y) * 100 = of_int (k + l)" using assms by simp
  have "(x - y) * 100 = x * 100 - y * 100" by (simp add: algebra_simps)
  then show "(x - y) * 100 = of_int (k - l)" using assms by simp
qed


text \<open>
  Sums and differences of column values, and their integer multiples, are kept unchanged
  by a column that is wide enough for them.
\<close>

lemma quantize_add:
  assumes "quantize x = x" and "quantize y = y"
  shows "quantize (x + y) = x + y" and "quantize (x - y) = x - y"
proof -
  obtain k :: int where k: "quantize x * 100 = of_int k" using quantize_is_cents by blast
  obtain l :: int where l: "quantize y * 100 = of_int l" using quantize_is_cents by blast
  have kx: "x * 100 = of_int k" using k assms by simp
  have ly: "y * 100 = of_int l" using l assms by simp
  show "quantize (x + y) = x + y" using cents_add(1) [OF kx ly] by (rule quantize_cents)
  show "quantize (x - y) = x - y" using cents_add(2) [OF kx ly] by (rule quantize_cents)
qed


lemma quantize_zero: "quantize 0 = 0"
  using quantize_cents [of 0 0] by simp

lemma Product_stored_iff:
  "Product_stored p =
     (column_value 10 (quantity_in_stock p) \<and> column_value 10 (minimum_stock p)
      \<and> column_value 10 (optimal_stock p) \<and> column_value 10 (unit_price p))"
proof -
  have "(Product_row p = p) =
          (quantize (quantity_in_stock p) = quantity_in_stock p
           \<and> quantize (minimum_stock p) = minimum_stock p
           \<and> quantize (optimal_stock p) = optimal_stock p
           \<and> quantize (unit_price p) = unit_price p)"
    by (cases p) (simp add: Product_row_def)
  then show ?thesis by (auto simp add: Product_stored_def Product_fits_def column_value_def)
qed


text \<open>
  How the example values evaluate: the rounding is unfolded on literals only, whole
  numbers are kept as they are.
\<close>

lemma quantize_whole:
  "quantize 0 = 0" "quantize 1 = 1" "quantize (numeral a) = numeral a"
  "quantize (- 1) = - 1" "quantize (- numeral a) = - numeral a"
proof -
  show "quantize 0 = 0" using quantize_cents [of 0 0] by simp
  show "quantize 1 = 1" using quantize_cents [of 1 100] by simp
  show "quantize (numeral a) = numeral a"
    using quantize_cents [of "numeral a" "numeral a * 100"] by simp
  show "quantize (- 1) = - 1" using quantize_cents [of "- 1" "- 100"] by simp
  show "quantize (- numeral a) = - numeral a"
    using quantize_cents [of "- numeral a" "- numeral a * 100"] by simp
qed

lemmas quantize_fraction =
  quantize_def [of "numeral a / numeral b"] quantize_def [of "- (numeral a / numeral b)"]
  quantize_def [of "1 / numeral b"] quantize_def [of "- (1 / numeral b)"]
  for a b

lemmas fits_literal =
  fits_def [of _ 0] fits_def [of _ 1] fits_def [of _ "numeral a"] fits_def [of _ "- 1"]
  fits_def [of _ "- numeral a"]
  fits_def [of _ "numeral a / numeral b"] fits_def [of _ "- (numeral a / numeral b)"]
  fits_def [of _ "1 / numeral b"] fits_def [of _ "- (1 / numeral b)"]
  for a b

lemmas decimal_eval =
  quantize_whole quantize_fraction fits_literal column_value_def Let_def floor_rat_numeral


section \<open>Stock status\<close>

text \<open>
  C6, as amended. stock_status depends only on quantity_in_stock, minimum_stock and
  optimal_stock, and its tests are tried in order: OUT_OF_STOCK if quantity \<le> 0;
  LOW_STOCK if 0 < quantity < minimum; NORMAL if 0 < quantity and
  minimum \<le> quantity < optimal; OPTIMAL if 0 < quantity, minimum \<le> quantity and
  optimal \<le> quantity.
\<close>

theorem stock_status_cascade:
  "(quantity_in_stock p \<le> 0 \<longrightarrow> stock_status p = ''OUT_OF_STOCK'')
   \<and> (0 < quantity_in_stock p \<and> quantity_in_stock p < minimum_stock p
        \<longrightarrow> stock_status p = ''LOW_STOCK'')
   \<and> (0 < quantity_in_stock p \<and> minimum_stock p \<le> quantity_in_stock p
        \<and> quantity_in_stock p < optimal_stock p \<longrightarrow> stock_status p = ''NORMAL'')
   \<and> (0 < quantity_in_stock p \<and> minimum_stock p \<le> quantity_in_stock p
        \<and> optimal_stock p \<le> quantity_in_stock p \<longrightarrow> stock_status p = ''OPTIMAL'')
   \<and> (quantity_in_stock p' = quantity_in_stock p \<and> minimum_stock p' = minimum_stock p
        \<and> optimal_stock p' = optimal_stock p \<longrightarrow> stock_status p' = stock_status p)"
  by (simp add: stock_status_def)

theorem stock_status_cascade_witness:
  "stock_status \<lparr>quantity_in_stock = 15, minimum_stock = 10, optimal_stock = 20,
                 unit_price = 1\<rparr> = ''NORMAL''
   \<and> stock_status \<lparr>quantity_in_stock = 15, minimum_stock = 10, optimal_stock = 20,
                   unit_price = 7\<rparr> = ''NORMAL''
   \<and> stock_status \<lparr>quantity_in_stock = 5, minimum_stock = 10, optimal_stock = 20,
                   unit_price = 1\<rparr> = ''LOW_STOCK''
   \<and> stock_status \<lparr>quantity_in_stock = 25, minimum_stock = 10, optimal_stock = 20,
                   unit_price = 1\<rparr> = ''OPTIMAL''
   \<and> stock_status \<lparr>quantity_in_stock = 0, minimum_stock = 10, optimal_stock = 20,
                   unit_price = 1\<rparr> = ''OUT_OF_STOCK''"
  using stock_status_cascade
          [of "\<lparr>quantity_in_stock = 15, minimum_stock = 10, optimal_stock = 20, unit_price = 1\<rparr>"
              "\<lparr>quantity_in_stock = 15, minimum_stock = 10, optimal_stock = 20, unit_price = 7\<rparr>"]
        stock_status_cascade
          [of "\<lparr>quantity_in_stock = 5, minimum_stock = 10, optimal_stock = 20, unit_price = 1\<rparr>"
              "\<lparr>quantity_in_stock = 5, minimum_stock = 10, optimal_stock = 20, unit_price = 1\<rparr>"]
        stock_status_cascade
          [of "\<lparr>quantity_in_stock = 25, minimum_stock = 10, optimal_stock = 20, unit_price = 1\<rparr>"
              "\<lparr>quantity_in_stock = 25, minimum_stock = 10, optimal_stock = 20, unit_price = 1\<rparr>"]
        stock_status_cascade
          [of "\<lparr>quantity_in_stock = 0, minimum_stock = 10, optimal_stock = 20, unit_price = 1\<rparr>"
              "\<lparr>quantity_in_stock = 0, minimum_stock = 10, optimal_stock = 20, unit_price = 1\<rparr>"]
  by simp

text \<open>
  The four rules read as independent implications overlap. A product with nothing in
  stock and no minimum satisfies minimum \<le> quantity < optimal and is OUT_OF_STOCK, not
  NORMAL; the freshly created product, all three amounts zero, satisfies
  quantity \<ge> optimal and is OUT_OF_STOCK, not OPTIMAL; a product below its minimum but
  above its optimal level is LOW_STOCK, not OPTIMAL.
\<close>

theorem stock_status_overlap_counterexample:
  "minimum_stock \<lparr>quantity_in_stock = 0, minimum_stock = 0, optimal_stock = 20, unit_price = 1\<rparr>
     \<le> quantity_in_stock
          \<lparr>quantity_in_stock = 0, minimum_stock = 0, optimal_stock = 20, unit_price = 1\<rparr>
   \<and> quantity_in_stock
        \<lparr>quantity_in_stock = 0, minimum_stock = 0, optimal_stock = 20, unit_price = 1\<rparr>
       < optimal_stock
          \<lparr>quantity_in_stock = 0, minimum_stock = 0, optimal_stock = 20, unit_price = 1\<rparr>
   \<and> stock_status
        \<lparr>quantity_in_stock = 0, minimum_stock = 0, optimal_stock = 20, unit_price = 1\<rparr>
       \<noteq> ''NORMAL''
   \<and> optimal_stock \<lparr>quantity_in_stock = 0, minimum_stock = 0, optimal_stock = 0, unit_price = 0\<rparr>
     \<le> quantity_in_stock
          \<lparr>quantity_in_stock = 0, minimum_stock = 0, optimal_stock = 0, unit_price = 0\<rparr>
   \<and> stock_status
        \<lparr>quantity_in_stock = 0, minimum_stock = 0, optimal_stock = 0, unit_price = 0\<rparr>
       \<noteq> ''OPTIMAL''
   \<and> optimal_stock \<lparr>quantity_in_stock = 5, minimum_stock = 10, optimal_stock = 3, unit_price = 1\<rparr>
     \<le> quantity_in_stock
          \<lparr>quantity_in_stock = 5, minimum_stock = 10, optimal_stock = 3, unit_price = 1\<rparr>
   \<and> stock_status
        \<lparr>quantity_in_stock = 5, minimum_stock = 10, optimal_stock = 3, unit_price = 1\<rparr>
       \<noteq> ''OPTIMAL''"
  by (simp add: stock_status_def)

section \<open>Order totals\<close>

text \<open>
  C3. calculate_totals sets subtotal to the sum over the order's items of
  quantity \<times> unit_price, tax_amount to subtotal \<times> tax_rate / 100 and total_amount to
  subtotal + tax_amount - discount_amount, and returns the total. An order with
  tax_rate 10, no discount and the items (2, 10.00) and (1, 5.00) gets subtotal 25.00,
  tax_amount 2.50 and total_amount 27.50.
\<close>

theorem calculate_totals_formula:
  "subtotal (fst (calculate_totals db self))
      = sum_list (map (\<lambda>item. of_int (oi_quantity item) * oi_unit_price item)
                    (items_all db self))
   \<and> tax_amount (fst (calculate_totals db self))
      = subtotal (fst (calculate_totals db self)) * tax_rate self / 100
   \<and> total_amount (fst (calculate_totals db self))
      = subtotal (fst (calculate_totals db self)) + tax_amount (fst (calculate_totals db self))
          - discount_amount self
   \<and> snd (calculate_totals db self) = total_amount (fst (calculate_totals db self))
   \<and> (tax_rate self = 10 \<and> discount_amount self = 0
        \<and> map (\<lambda>item. (oi_quantity item, oi_unit_price item)) (items_all db self)
            = [(2, 10), (1, 5)]
      \<longrightarrow> subtotal (fst (calculate_totals db self)) = 25
          \<and> tax_amount (fst (calculate_totals db self)) = 5 / 2
          \<and> total_amount (fst (calculate_totals db self)) = 55 / 2)"
proof -
  have sub: "subtotal (fst (calculate_totals db self))
      = sum_list (map (\<lambda>item. of_int (oi_quantity item) * oi_unit_price item)
                    (items_all db self))"
    by (simp add: calculate_totals_def Let_def total_price_def [abs_def])
  have tax: "tax_amount (fst (calculate_totals db self))
      = subtotal (fst (calculate_totals db self)) * tax_rate self / 100"
    by (simp add: calculate_totals_def Let_def)
  have tot: "total_amount (fst (calculate_totals db self))
      = subtotal (fst (calculate_totals db self)) + tax_amount (fst (calculate_totals db self))
          - discount_amount self"
    by (simp add: calculate_totals_def Let_def)
  have ret: "snd (calculate_totals db self) = total_amount (fst (calculate_totals db self))"
    by (simp add: calculate_totals_def Let_def)
  have ex: "subtotal (fst (calculate_totals db self)) = 25
          \<and> tax_amount (fst (calculate_totals db self)) = 5 / 2
          \<and> total_amount (fst (calculate_totals db self)) = 55 / 2"
    if r: "tax_rate self = 10" and d: "discount_amount self = 0"
      and its: "map (\<lambda>item. (oi_quantity item, oi_unit_price item)) (items_all db self)
            = [(2, 10), (1, 5)]"
  proof -
    have "map (\<lambda>item. of_int (oi_quantity item) * oi_unit_price item) (items_all db self)
          = map (\<lambda>qu. of_int (fst qu) * snd qu)
              (map (\<lambda>item. (oi_quantity item, oi_unit_price item)) (items_all db self))"
      by simp
    then have s: "subtotal (fst (calculate_totals db self)) = 25"
      unfolding sub its by simp
    have t: "tax_amount (fst (calculate_totals db self)) = 5 / 2"
      unfolding tax s r by simp
    have "total_amount (fst (calculate_totals db self)) = 55 / 2"
      unfolding tot s t d by simp
    with s t show ?thesis by simp
  qed
  from sub tax tot ret ex show ?thesis by (intro conjI impI) simp_all
qed

theorem calculate_totals_formula_witness:
  "subtotal (fst (calculate_totals bill_db order_1)) = 25
   \<and> tax_amount (fst (calculate_totals bill_db order_1)) = 5 / 2
   \<and> total_amount (fst (calculate_totals bill_db order_1)) = 55 / 2"
proof -
  have "tax_rate order_1 = 10 \<and> discount_amount order_1 = 0
        \<and> map (\<lambda>item. (oi_quantity item, oi_unit_price item)) (items_all bill_db order_1)
            = [(2, 10), (1, 5)]"
    by (simp add: order_1_def bill_db_def empty_db_def items_all_def)
  with calculate_totals_formula [of bill_db order_1] show ?thesis by blast
qed

text \<open>
  C8. calculate_totals is idempotent: a second call on the result of the first, with the
  order's items unchanged, yields the same subtotal, tax_amount and total_amount (indeed
  the same order and the same returned total).
\<close>

theorem calculate_totals_idempotent:
  "calculate_totals db (fst (calculate_totals db self)) = calculate_totals db self
   \<and> subtotal (fst (calculate_totals db (fst (calculate_totals db self))))
       = subtotal (fst (calculate_totals db self))
   \<and> tax_amount (fst (calculate_totals db (fst (calculate_totals db self))))
       = tax_amount (fst (calculate_totals db self))
   \<and> total_amount (fst (calculate_totals db (fst (calculate_totals db self))))
       = total_amount (fst (calculate_totals db self))"
  by (simp add: calculate_totals_def items_all_def Let_def)

section \<open>Stock ledger\<close>

lemma StockMovement_save_new:
  assumes "sm_pk m = None" and "get_product db m = Some p"
    and "Product_fits (p\<lparr>quantity_in_stock := quantity_in_stock p + signed_quantity m\<rparr>)"
    and "StockMovement_fits m"
  shows "StockMovement_save db m =
           Inr (db\<lparr>products := (products db)(sm_product_id m \<mapsto>
                       Product_row (p\<lparr>quantity_in_stock :=
                                        quantity_in_stock p + signed_quantity m\<rparr>)),
                    stock_movements := stock_movements db @
                       [(next_pk (stock_movements db),
                         StockMovement_row (m\<lparr>sm_pk := Some (next_pk (stock_movements db))\<rparr>))]\<rparr>,
                m\<lparr>sm_product := Some (p\<lparr>quantity_in_stock :=
                                          quantity_in_stock p + signed_quantity m\<rparr>),
                  sm_pk := Some (next_pk (stock_movements db))\<rparr>)"
  using assms
  by (auto simp add: StockMovement_save_def StockMovement_super_save_def Product_save_def
      StockMovement_fits_def StockMovement_row_def signed_quantity_def Let_def
      split: if_splits)



lemma quantize_signed_quantity:
  assumes "quantize (sm_quantity m) = sm_quantity m"
  shows "quantize (signed_quantity m) = signed_quantity m"
  using assms quantize_add(2) [of 0 "sm_quantity m"]
  by (simp add: signed_quantity_def quantize_zero)

lemma Product_stored_step:
  assumes "Product_stored p" and "quantize s = s" and "fits 10 (quantity_in_stock p + s)"
  shows "Product_stored (p\<lparr>quantity_in_stock := quantity_in_stock p + s\<rparr>)"
  using assms quantize_add(1) [of "quantity_in_stock p" s]
  by (simp add: Product_stored_iff column_value_def)

lemma save_movements_sum:
  assumes "products db pid = Some p" and "Product_stored p"
    and "\<forall>m\<in>set ms. sm_pk m = None \<and> sm_product_id m = pid
                     \<and> column_value 10 (sm_quantity m) \<and> fits 10 (sm_unit_price m)"
    and "fresh_movements db ms"
    and "within_width (quantity_in_stock p) ms"
  shows "\<exists>db'. save_movements db ms = Inr (db', ())
            \<and> products db' = (products db)(pid \<mapsto>
                 p\<lparr>quantity_in_stock := quantity_in_stock p + sum_list (map signed_quantity ms)\<rparr>)
            \<and> map (\<lambda>row. (snd row)\<lparr>sm_pk := None\<rparr>) (stock_movements db')
                 = map (\<lambda>row. (snd row)\<lparr>sm_pk := None\<rparr>) (stock_movements db)
                   @ map StockMovement_row ms"
  using assms
proof (induction ms arbitrary: db p)
  case Nil
  then show ?case by (simp add: map_upd_triv)
next
  case (Cons m ms)
  let ?k = "next_pk (stock_movements db)"
  let ?p1 = "p\<lparr>quantity_in_stock := quantity_in_stock p + signed_quantity m\<rparr>"
  let ?m1 = "m\<lparr>sm_product := Some ?p1, sm_pk := Some ?k\<rparr>"
  let ?db1 = "db\<lparr>products := (products db)(sm_product_id m \<mapsto> Product_row ?p1),
                 stock_movements := stock_movements db
                    @ [(?k, StockMovement_row (m\<lparr>sm_pk := Some ?k\<rparr>))]\<rparr>"
  from Cons.prems have m: "sm_pk m = None" "sm_product_id m = pid"
    and mq: "column_value 10 (sm_quantity m)" and mu: "fits 10 (sm_unit_price m)" by simp_all
  from Cons.prems have fresh: "sm_product m = None \<or> sm_product m = products db (sm_product_id m)"
    and fresh': "fresh_movements (store_of (StockMovement_save db m)) ms" by simp_all
  from Cons.prems have w: "fits 10 (quantity_in_stock p + signed_quantity m)"
    and w': "within_width (quantity_in_stock p + signed_quantity m) ms" by simp_all
  have g: "get_product db m = Some p"
    using fresh m Cons.prems(1) by (auto simp add: get_product_def)
  have qs: "quantize (signed_quantity m) = signed_quantity m"
    using mq by (simp add: quantize_signed_quantity column_value_def)
  have st1: "Product_stored ?p1" using Cons.prems(2) qs w by (rule Product_stored_step)
  then have pf: "Product_fits ?p1" and pr: "Product_row ?p1 = ?p1"
    by (simp_all add: Product_stored_def)
  have mf: "StockMovement_fits m"
    using mq mu by (simp add: StockMovement_fits_def column_value_def)
  have step: "StockMovement_save db m = Inr (?db1, ?m1)"
    using StockMovement_save_new [OF m(1) g pf mf] by simp
  have p1: "products ?db1 pid = Some ?p1" using m pr by simp
  have rest: "\<forall>m\<in>set ms. sm_pk m = None \<and> sm_product_id m = pid
                 \<and> column_value 10 (sm_quantity m) \<and> fits 10 (sm_unit_price m)"
    using Cons.prems by simp
  have fr1: "fresh_movements ?db1 ms" using fresh' step by (simp add: store_of_def)
  have w1: "within_width (quantity_in_stock ?p1) ms" using w' by simp
  from Cons.IH [OF p1 st1 rest fr1 w1] obtain db' where
    run: "save_movements ?db1 ms = Inr (db', ())"
    and prods: "products db' = (products ?db1)(pid \<mapsto>
                 ?p1\<lparr>quantity_in_stock := quantity_in_stock ?p1 + sum_list (map signed_quantity ms)\<rparr>)"
    and rows: "map (\<lambda>row. (snd row)\<lparr>sm_pk := None\<rparr>) (stock_movements db')
                 = map (\<lambda>row. (snd row)\<lparr>sm_pk := None\<rparr>) (stock_movements ?db1)
                   @ map StockMovement_row ms"
    by (elim exE conjE)
  have "save_movements db (m # ms) = Inr (db', ())" using step run by simp
  moreover have "products db' = (products db)(pid \<mapsto>
       p\<lparr>quantity_in_stock := quantity_in_stock p + sum_list (map signed_quantity (m # ms))\<rparr>)"
    using prods m by (simp add: add.assoc)
  moreover have "map (\<lambda>row. (snd row)\<lparr>sm_pk := None\<rparr>) (stock_movements db')
                 = map (\<lambda>row. (snd row)\<lparr>sm_pk := None\<rparr>) (stock_movements db)
                   @ map StockMovement_row (m # ms)"
    using rows m by (simp add: StockMovement_row_def)
  ultimately show ?case by (intro exI conjI)
qed

text \<open>
  C1. For every product row of the store and every sequence of newly created stock
  movements against it whose quantities are column values (two decimals at most), where
  no movement carries a stale copy of the product and every running stock stays within
  the ten digits of the column, every save succeeds and the resulting quantity_in_stock
  is the initial quantity plus the signed sum of the movements: IN and RETURN add their
  quantity, OUT and WASTE subtract it, ADJUSTMENT contributes zero. Every movement of
  the sequence, ADJUSTMENT included, is recorded in the movement table.
\<close>

theorem stock_ledger_signed_sum:
  assumes "products db pid = Some p" and "Product_stored p"
    and "\<forall>m\<in>set ms. sm_pk m = None \<and> sm_product_id m = pid
                     \<and> column_value 10 (sm_quantity m) \<and> fits 10 (sm_unit_price m)"
    and "fresh_movements db ms"
    and "within_width (quantity_in_stock p) ms"
  shows "\<exists>db'. save_movements db ms = Inr (db', ())
            \<and> products db' pid =
                Some (p\<lparr>quantity_in_stock :=
                          quantity_in_stock p + sum_list (map signed_quantity ms)\<rparr>)
            \<and> map (\<lambda>row. (snd row)\<lparr>sm_pk := None\<rparr>) (stock_movements db')
                 = map (\<lambda>row. (snd row)\<lparr>sm_pk := None\<rparr>) (stock_movements db)
                   @ map StockMovement_row ms"
proof -
  from save_movements_sum [OF assms] obtain db' where
    "save_movements db ms = Inr (db', ())"
    "products db' = (products db)(pid \<mapsto>
                 p\<lparr>quantity_in_stock := quantity_in_stock p + sum_list (map signed_quantity ms)\<rparr>)"
    "map (\<lambda>row. (snd row)\<lparr>sm_pk := None\<rparr>) (stock_movements db')
                 = map (\<lambda>row. (snd row)\<lparr>sm_pk := None\<rparr>) (stock_movements db)
                   @ map StockMovement_row ms"
    by (elim exE conjE)
  then show ?thesis by simp
qed

lemmas stock_eval =
  StockMovement_save_def StockMovement_super_save_def Product_save_def get_product_def
  Product_fits_def Product_row_def StockMovement_fits_def StockMovement_row_def
  store_of_def next_pk_def movement_def movement_on_def

theorem stock_ledger_signed_sum_witness:
  "\<exists>db'. save_movements pantry_db
            [movement 1 ''IN'' 10,
             movement_on 1 (flour\<lparr>quantity_in_stock := 15\<rparr>) ''OUT'' 3,
             movement 1 ''ADJUSTMENT'' 4, movement 1 ''RETURN'' 1,
             movement 1 ''WASTE'' (5 / 2)] = Inr (db', ())
         \<and> products db' 1 = Some (flour\<lparr>quantity_in_stock := 21 / 2\<rparr>)
         \<and> length (stock_movements db') = 5"
proof -
  let ?ms = "[movement 1 ''IN'' 10,
             movement_on 1 (flour\<lparr>quantity_in_stock := 15\<rparr>) ''OUT'' 3,
             movement 1 ''ADJUSTMENT'' 4, movement 1 ''RETURN'' 1,
             movement 1 ''WASTE'' (5 / 2)]"
  have a: "products pantry_db 1 = Some flour" by (simp add: pantry_db_def empty_db_def)
  have b: "Product_stored flour"
    by (simp add: Product_stored_def Product_fits_def Product_row_def flour_def decimal_eval)
  have c: "\<forall>m\<in>set ?ms. sm_pk m = None \<and> sm_product_id m = 1
                     \<and> column_value 10 (sm_quantity m) \<and> fits 10 (sm_unit_price m)"
    by (simp add: movement_def movement_on_def decimal_eval)
  have d: "fresh_movements pantry_db ?ms"
    by (simp add: stock_eval pantry_db_def empty_db_def flour_def decimal_eval)
  have e: "within_width (quantity_in_stock flour) ?ms"
    by (simp add: signed_quantity_def movement_def movement_on_def flour_def decimal_eval)
  from stock_ledger_signed_sum [OF a b c d e] obtain db' where
    run: "save_movements pantry_db ?ms = Inr (db', ())"
    and prod: "products db' 1 = Some (flour\<lparr>quantity_in_stock :=
                          quantity_in_stock flour + sum_list (map signed_quantity ?ms)\<rparr>)"
    and rows: "map (\<lambda>row. (snd row)\<lparr>sm_pk := None\<rparr>) (stock_movements db')
                 = map (\<lambda>row. (snd row)\<lparr>sm_pk := None\<rparr>) (stock_movements pantry_db)
                   @ map StockMovement_row ?ms"
    by (elim exE conjE)
  have s: "quantity_in_stock flour + sum_list (map signed_quantity ?ms) = 21 / 2"
    by (simp add: signed_quantity_def movement_def movement_on_def flour_def)
  have "length (map (\<lambda>row. (snd row)\<lparr>sm_pk := None\<rparr>) (stock_movements db')) = 5"
    unfolding rows by (simp add: pantry_db_def empty_db_def)
  then have l: "length (stock_movements db') = 5" by simp
  from run prod l show ?thesis unfolding s by (intro exI conjI)
qed

text \<open>
  Three sequences for which the stock is not the initial quantity plus the signed sum.
  Two movements that both carry the product as it was loaded before either was saved
  (stock 5): the second save writes 5 - 3 over the 15 the first one wrote. A movement
  into a stock that fills the column: the save of the product raises. A quantity with
  three decimals: the column keeps the stock it had.
\<close>

theorem stock_ledger_counterexample:
  "products (store_of (save_movements pantry_db
       [movement_on 1 flour ''IN'' 10, movement_on 1 flour ''OUT'' 3])) 1
     = Some (flour\<lparr>quantity_in_stock := 2\<rparr>)
   \<and> map fst (stock_movements (store_of (save_movements pantry_db
       [movement_on 1 flour ''IN'' 10, movement_on 1 flour ''OUT'' 3]))) = [1, 2]
   \<and> quantity_in_stock flour
       + sum_list (map signed_quantity
           [movement_on 1 flour ''IN'' 10, movement_on 1 flour ''OUT'' 3]) = 12
   \<and> save_movements pantry_db [movement 2 ''IN'' 1] = Inl (InvalidOperation, pantry_db)
   \<and> products (store_of (save_movements pantry_db [movement 1 ''IN'' (1 / 250)])) 1
       = Some flour
   \<and> quantity_in_stock flour + sum_list (map signed_quantity [movement 1 ''IN'' (1 / 250)])
       = 5 + 1 / 250"
  by (simp add: stock_eval signed_quantity_def pantry_db_def empty_db_def flour_def silo_def
      decimal_eval)

section \<open>Order items and the stock\<close>















section \<open>No availability check\<close>



section \<open>Payments and the invoice status\<close>














section \<open>Cascades fire at creation only\<close>




section \<open>Marking an order paid\<close>

lemma filter_first_None:
  "(AccountCategory_filter_first db ty = None)
     = (\<not> (\<exists>row\<in>set (account_categories db). account_type (snd row) = ty))"
proof -
  let ?xs = "filter (\<lambda>(k, c). account_type c = ty) (account_categories db)"
  let ?ys = "sort_key (\<lambda>(k, c). ac_code c) ?xs"
  have "(AccountCategory_filter_first db ty = None) = (?ys = [])"
    by (simp add: AccountCategory_filter_first_def split: list.splits)
  also have "\<dots> = (set ?ys = {})" by (simp only: set_empty)
  also have "\<dots> = (set ?xs = {})" by (simp only: set_sort)
  also have "\<dots> = (\<not> (\<exists>row\<in>set (account_categories db). account_type (snd row) = ty))"
    by (simp add: filter_empty_conv) fastforce
  finally show ?thesis .
qed

lemma filter_first_Some:
  assumes "AccountCategory_filter_first db ty = Some (ck, c)"
  shows "(ck, c) \<in> set (account_categories db) \<and> account_type c = ty
         \<and> (\<forall>row\<in>set (account_categories db). account_type (snd row) = ty
               \<longrightarrow> ac_code c \<le> ac_code (snd row))"
proof -
  let ?xs = "filter (\<lambda>(k, c). account_type c = ty) (account_categories db)"
  let ?f = "\<lambda>(k :: nat, c). ac_code c"
  let ?ys = "sort_key ?f ?xs"
  from assms obtain rest where ys: "?ys = (ck, c) # rest"
    by (auto simp add: AccountCategory_filter_first_def split: list.splits)
  have mem: "(ck, c) \<in> set ?ys" using ys by simp
  then have in_xs: "(ck, c) \<in> set ?xs" by simp
  have srt: "sorted (map ?f ?ys)" by (rule sorted_sort_key)
  have least: "ac_code c \<le> ac_code (snd row)"
    if "row \<in> set (account_categories db)" "account_type (snd row) = ty" for row
  proof -
    have "row \<in> set ?xs" using that by (auto simp add: case_prod_beta)
    then have "row \<in> set ?ys" by simp
    then have "row = (ck, c) \<or> row \<in> set rest" using ys by simp
    moreover have "\<forall>r\<in>set rest. ?f (ck, c) \<le> ?f r"
      using srt unfolding ys by simp
    ultimately show ?thesis by (cases row) auto
  qed
  show ?thesis using in_xs least by auto
qed

lemma Transaction_create_fresh:
  assumes "\<not> (\<exists>row\<in>set (transactions db). transaction_number (snd row) = transaction_number kw)"
    and "fits 10 (t_amount kw)"
    and "(t_category kw, c) \<in> set (account_categories db)"
  shows "Transaction_objects_create db kw =
           Inr (db\<lparr>transactions := transactions db @
                      [(next_pk (transactions db),
                        Transaction_row (kw\<lparr>t_pk := Some (next_pk (transactions db))\<rparr>))]\<rparr>,
                kw\<lparr>t_pk := Some (next_pk (transactions db))\<rparr>)"
proof -
  have "\<not> list_ex (\<lambda>(k, t). transaction_number t = transaction_number kw) (transactions db)"
    using assms(1) by (auto simp add: list_ex_iff)
  moreover have "list_ex (\<lambda>(k, c). k = t_category kw) (account_categories db)"
    using assms(3) by (auto simp add: list_ex_iff)
  ultimately show ?thesis using assms(2) by (simp add: Transaction_objects_create_def Let_def)
qed

lemma Transaction_create_taken:
  assumes "\<exists>row\<in>set (transactions db). transaction_number (snd row) = transaction_number kw"
    and "fits 10 (t_amount kw)"
  shows "Transaction_objects_create db kw = Inl (IntegrityError, db)"
proof -
  have "list_ex (\<lambda>(k, t). transaction_number t = transaction_number kw) (transactions db)"
    using assms(1) by (auto simp add: list_ex_iff)
  then show ?thesis using assms(2) by (simp add: Transaction_objects_create_def)
qed

text \<open>
  C5, as amended. For every Order whose amounts fit their columns, mark_paid sets the
  status to PAID and saves the order, in each of the three cases that follow. If no
  REVENUE-type AccountCategory exists it returns without raising and creates no
  Transaction. If one exists, and no Transaction numbered TXN-<order_number> exists yet,
  it creates exactly one Transaction, of type INCOME, of amount the order's total_amount
  rounded to two decimals (the total_amount itself when it is a column value), tagged to
  the REVENUE-type category that comes first in the categories' ordering (the one of
  least code). If one exists and a Transaction of that number exists already, it raises
  IntegrityError and creates no Transaction; the order stays saved as PAID.
\<close>

theorem mark_paid_records_income:
  "Order_fits self
   \<longrightarrow> orders (store_of (mark_paid now db self)) (o_pk self)
         = Some (Order_row (self\<lparr>o_status := ''PAID'', paid_at := Some now\<rparr>))
       \<and> (\<not> (\<exists>row\<in>set (account_categories db). account_type (snd row) = ''REVENUE'')
            \<longrightarrow> (\<exists>db'. mark_paid now db self
                         = Inr (db', self\<lparr>o_status := ''PAID'', paid_at := Some now\<rparr>)
                    \<and> transactions db' = transactions db))
       \<and> ((\<exists>row\<in>set (account_categories db). account_type (snd row) = ''REVENUE'')
            \<and> \<not> (\<exists>row\<in>set (transactions db).
                     transaction_number (snd row) = ''TXN-'' @ order_number self)
            \<longrightarrow> (\<exists>db' k t c. mark_paid now db self
                         = Inr (db', self\<lparr>o_status := ''PAID'', paid_at := Some now\<rparr>)
                    \<and> transactions db' = transactions db @ [(k, t)]
                    \<and> transaction_type t = ''INCOME''
                    \<and> t_amount t = quantize (total_amount self)
                    \<and> (column_value 10 (total_amount self) \<longrightarrow> t_amount t = total_amount self)
                    \<and> (t_category t, c) \<in> set (account_categories db)
                    \<and> account_type c = ''REVENUE''
                    \<and> (\<forall>row\<in>set (account_categories db). account_type (snd row) = ''REVENUE''
                          \<longrightarrow> ac_code c \<le> ac_code (snd row))))
       \<and> ((\<exists>row\<in>set (account_categories db). account_type (snd row) = ''REVENUE'')
            \<and> (\<exists>row\<in>set (transactions db).
                   transaction_number (snd row) = ''TXN-'' @ order_number self)
            \<longrightarrow> (\<exists>db'. mark_paid now db self = Inl (IntegrityError, db')
                    \<and> transactions db' = transactions db))"
proof (intro impI)
  let ?self1 = "self\<lparr>o_status := ''PAID'', paid_at := Some now\<rparr>"
  let ?db1 = "db\<lparr>orders := (orders db)(o_pk self \<mapsto> Order_row ?self1)\<rparr>"
  assume fit: "Order_fits self"
  then have fit1: "Order_fits ?self1" by (simp add: Order_fits_def)
  have sv: "Order_save db ?self1 = Inr (?db1, ())" using fit1 by (simp add: Order_save_def)
  have cats: "account_categories ?db1 = account_categories db"
    and txs: "transactions ?db1 = transactions db"
    by simp_all
  have fa: "fits 10 (total_amount self)" using fit by (simp add: Order_fits_def)
  have none: "mark_paid now db self = Inr (?db1, ?self1)"
    if "\<not> (\<exists>row\<in>set (account_categories db). account_type (snd row) = ''REVENUE'')"
  proof -
    have "AccountCategory_filter_first ?db1 ''REVENUE'' = None"
      using that by (simp add: filter_first_None)
    then show ?thesis using sv by (simp add: mark_paid_def Let_def)
  qed
  have some: "\<exists>ck c. AccountCategory_filter_first ?db1 ''REVENUE'' = Some (ck, c)"
    if "\<exists>row\<in>set (account_categories db). account_type (snd row) = ''REVENUE''"
  proof -
    have "AccountCategory_filter_first ?db1 ''REVENUE'' \<noteq> None"
      using that filter_first_None [of ?db1 "''REVENUE''"] cats by simp
    then show ?thesis by auto
  qed
  have fresh: "\<exists>db' k t c. mark_paid now db self = Inr (db', ?self1)
                    \<and> orders db' (o_pk self) = Some (Order_row ?self1)
                    \<and> transactions db' = transactions db @ [(k, t)]
                    \<and> transaction_type t = ''INCOME''
                    \<and> t_amount t = quantize (total_amount self)
                    \<and> (column_value 10 (total_amount self) \<longrightarrow> t_amount t = total_amount self)
                    \<and> (t_category t, c) \<in> set (account_categories db)
                    \<and> account_type c = ''REVENUE''
                    \<and> (\<forall>row\<in>set (account_categories db). account_type (snd row) = ''REVENUE''
                          \<longrightarrow> ac_code c \<le> ac_code (snd row))"
    if rev: "\<exists>row\<in>set (account_categories db). account_type (snd row) = ''REVENUE''"
      and free: "\<not> (\<exists>row\<in>set (transactions db).
                     transaction_number (snd row) = ''TXN-'' @ order_number self)"
  proof -
    from some [OF rev] obtain ck c where
      first: "AccountCategory_filter_first ?db1 ''REVENUE'' = Some (ck, c)" by auto
    note props = filter_first_Some [OF first, unfolded cats]
    let ?kw = "\<lparr>t_pk = None, transaction_number = ''TXN-'' @ order_number ?self1,
                 transaction_type = ''INCOME'', t_category = ck, t_date = date_of now,
                 t_amount = total_amount ?self1, t_payment_method = ''CASH'',
                 t_description = ''Commande '' @ order_number ?self1,
                 t_created_by = served_by ?self1\<rparr>"
    let ?k = "next_pk (transactions ?db1)"
    let ?t = "Transaction_row (?kw\<lparr>t_pk := Some ?k\<rparr>)"
    let ?db2 = "?db1\<lparr>transactions := transactions ?db1 @ [(?k, ?t)]\<rparr>"
    have fr: "\<not> (\<exists>row\<in>set (transactions ?db1).
                   transaction_number (snd row) = transaction_number ?kw)"
      using free txs by simp
    have fk: "fits 10 (t_amount ?kw)" using fa by simp
    have mem: "(t_category ?kw, c) \<in> set (account_categories ?db1)"
      using props by simp
    have create: "Transaction_objects_create ?db1 ?kw = Inr (?db2, ?kw\<lparr>t_pk := Some ?k\<rparr>)"
      by (rule Transaction_create_fresh [OF fr fk mem])
    have run: "mark_paid now db self = Inr (?db2, ?self1)"
      unfolding mark_paid_def Let_def using sv first create by simp
    have o2: "orders ?db2 (o_pk self) = Some (Order_row ?self1)" by simp
    have t2: "transactions ?db2 = transactions db @ [(?k, ?t)]" using txs by simp
    have f2: "transaction_type ?t = ''INCOME''" "t_amount ?t = quantize (total_amount self)"
      "t_category ?t = ck" by (simp_all add: Transaction_row_def)
    have f3: "column_value 10 (total_amount self) \<longrightarrow> t_amount ?t = total_amount self"
      unfolding f2 by (simp add: column_value_def)
    have m2: "(t_category ?t, c) \<in> set (account_categories db)"
      unfolding f2 using props by (rule conjunct1)
    have a2: "account_type c = ''REVENUE''" using props by simp
    have l2: "\<forall>row\<in>set (account_categories db). account_type (snd row) = ''REVENUE''
                          \<longrightarrow> ac_code c \<le> ac_code (snd row)" using props by simp
    show ?thesis
      by (rule exI [of _ ?db2], rule exI [of _ ?k], rule exI [of _ ?t], rule exI [of _ c])
         (intro conjI run o2 t2 f2(1) f2(2) f3 m2 a2 l2)
  qed
  have taken: "mark_paid now db self = Inl (IntegrityError, ?db1)"
    if rev: "\<exists>row\<in>set (account_categories db). account_type (snd row) = ''REVENUE''"
      and tk: "\<exists>row\<in>set (transactions db).
                     transaction_number (snd row) = ''TXN-'' @ order_number self"
  proof -
    from some [OF rev] obtain ck c where
      first: "AccountCategory_filter_first ?db1 ''REVENUE'' = Some (ck, c)" by auto
    let ?kw = "\<lparr>t_pk = None, transaction_number = ''TXN-'' @ order_number ?self1,
                 transaction_type = ''INCOME'', t_category = ck, t_date = date_of now,
                 t_amount = total_amount ?self1, t_payment_method = ''CASH'',
                 t_description = ''Commande '' @ order_number ?self1,
                 t_created_by = served_by ?self1\<rparr>"
    have tk1: "\<exists>row\<in>set (transactions ?db1).
                   transaction_number (snd row) = transaction_number ?kw"
      using tk txs by simp
    have fk: "fits 10 (t_amount ?kw)" using fa by simp
    have create: "Transaction_objects_create ?db1 ?kw = Inl (IntegrityError, ?db1)"
      by (rule Transaction_create_taken [OF tk1 fk])
    show ?thesis unfolding mark_paid_def Let_def using sv first create by simp
  qed
  have saved: "orders (store_of (mark_paid now db self)) (o_pk self) = Some (Order_row ?self1)"
  proof (cases "\<exists>row\<in>set (account_categories db). account_type (snd row) = ''REVENUE''")
    case False
    then show ?thesis using none by (simp add: store_of_def)
  next
    case True
    show ?thesis
    proof (cases "\<exists>row\<in>set (transactions db).
                     transaction_number (snd row) = ''TXN-'' @ order_number self")
      case True
      then show ?thesis
        using taken \<open>\<exists>row\<in>set (account_categories db). account_type (snd row) = ''REVENUE''\<close>
        by (simp add: store_of_def)
    next
      case False
      from fresh [OF True False] obtain db' where
        "mark_paid now db self = Inr (db', ?self1)"
        "orders db' (o_pk self) = Some (Order_row ?self1)"
        by (elim exE conjE)
      then show ?thesis by (simp add: store_of_def)
    qed
  qed
  have case1: "\<not> (\<exists>row\<in>set (account_categories db). account_type (snd row) = ''REVENUE'')
            \<longrightarrow> (\<exists>db'. mark_paid now db self = Inr (db', ?self1)
                    \<and> transactions db' = transactions db)"
    using none by simp
  have case2: "(\<exists>row\<in>set (account_categories db). account_type (snd row) = ''REVENUE'')
            \<and> \<not> (\<exists>row\<in>set (transactions db).
                     transaction_number (snd row) = ''TXN-'' @ order_number self)
            \<longrightarrow> (\<exists>db' k t c. mark_paid now db self = Inr (db', ?self1)
                    \<and> transactions db' = transactions db @ [(k, t)]
                    \<and> transaction_type t = ''INCOME''
                    \<and> t_amount t = quantize (total_amount self)
                    \<and> (column_value 10 (total_amount self) \<longrightarrow> t_amount t = total_amount self)
                    \<and> (t_category t, c) \<in> set (account_categories db)
                    \<and> account_type c = ''REVENUE''
                    \<and> (\<forall>row\<in>set (account_categories db). account_type (snd row) = ''REVENUE''
                          \<longrightarrow> ac_code c \<le> ac_code (snd row)))"
  proof (intro impI)
    assume a: "(\<exists>row\<in>set (account_categories db). account_type (snd row) = ''REVENUE'')
            \<and> \<not> (\<exists>row\<in>set (transactions db).
                     transaction_number (snd row) = ''TXN-'' @ order_number self)"
    from fresh [OF a [THEN conjunct1] a [THEN conjunct2]] obtain db' k t c where
      r: "mark_paid now db self = Inr (db', ?self1)"
        "transactions db' = transactions db @ [(k, t)]"
        "transaction_type t = ''INCOME''"
        "t_amount t = quantize (total_amount self)"
        "column_value 10 (total_amount self) \<longrightarrow> t_amount t = total_amount self"
        "(t_category t, c) \<in> set (account_categories db)"
        "account_type c = ''REVENUE''"
        "\<forall>row\<in>set (account_categories db). account_type (snd row) = ''REVENUE''
                          \<longrightarrow> ac_code c \<le> ac_code (snd row)"
      by (elim exE conjE)
    show "\<exists>db' k t c. mark_paid now db self = Inr (db', ?self1)
                    \<and> transactions db' = transactions db @ [(k, t)]
                    \<and> transaction_type t = ''INCOME''
                    \<and> t_amount t = quantize (total_amount self)
                    \<and> (column_value 10 (total_amount self) \<longrightarrow> t_amount t = total_amount self)
                    \<and> (t_category t, c) \<in> set (account_categories db)
                    \<and> account_type c = ''REVENUE''
                    \<and> (\<forall>row\<in>set (account_categories db). account_type (snd row) = ''REVENUE''
                          \<longrightarrow> ac_code c \<le> ac_code (snd row))"
      by (rule exI [of _ db'], rule exI [of _ k], rule exI [of _ t], rule exI [of _ c])
         (intro conjI r)
  qed
  have case3: "(\<exists>row\<in>set (account_categories db). account_type (snd row) = ''REVENUE'')
            \<and> (\<exists>row\<in>set (transactions db).
                   transaction_number (snd row) = ''TXN-'' @ order_number self)
            \<longrightarrow> (\<exists>db'. mark_paid now db self = Inl (IntegrityError, db')
                    \<and> transactions db' = transactions db)"
    using taken txs by simp
  show "orders (store_of (mark_paid now db self)) (o_pk self) = Some (Order_row ?self1)
       \<and> (\<not> (\<exists>row\<in>set (account_categories db). account_type (snd row) = ''REVENUE'')
            \<longrightarrow> (\<exists>db'. mark_paid now db self = Inr (db', ?self1)
                    \<and> transactions db' = transactions db))
       \<and> ((\<exists>row\<in>set (account_categories db). account_type (snd row) = ''REVENUE'')
            \<and> \<not> (\<exists>row\<in>set (transactions db).
                     transaction_number (snd row) = ''TXN-'' @ order_number self)
            \<longrightarrow> (\<exists>db' k t c. mark_paid now db self = Inr (db', ?self1)
                    \<and> transactions db' = transactions db @ [(k, t)]
                    \<and> transaction_type t = ''INCOME''
                    \<and> t_amount t = quantize (total_amount self)
                    \<and> (column_value 10 (total_amount self) \<longrightarrow> t_amount t = total_amount self)
                    \<and> (t_category t, c) \<in> set (account_categories db)
                    \<and> account_type c = ''REVENUE''
                    \<and> (\<forall>row\<in>set (account_categories db). account_type (snd row) = ''REVENUE''
                          \<longrightarrow> ac_code c \<le> ac_code (snd row))))
       \<and> ((\<exists>row\<in>set (account_categories db). account_type (snd row) = ''REVENUE'')
            \<and> (\<exists>row\<in>set (transactions db).
                   transaction_number (snd row) = ''TXN-'' @ order_number self)
            \<longrightarrow> (\<exists>db'. mark_paid now db self = Inl (IntegrityError, db')
                    \<and> transactions db' = transactions db))"
    by (intro conjI saved case1 case2 case3)
qed

lemmas ledger_eval =
  mark_paid_def Order_save_def Order_fits_def Order_row_def AccountCategory_filter_first_def
  Transaction_objects_create_def Transaction_row_def next_pk_def date_of_def store_of_def

theorem mark_paid_records_income_witness:
  "(orders (store_of (mark_paid (10, 0) no_revenue_db order_1)) 1 = Some order_1_paid
       \<and> (\<exists>db'. mark_paid (10, 0) no_revenue_db order_1 = Inr (db', order_1_paid)
             \<and> transactions db' = []))
   \<and> (\<exists>db' k t. mark_paid (10, 0) ledger_db order_1 = Inr (db', order_1_paid)
       \<and> transactions db' = [(k, t)]
       \<and> transaction_type t = ''INCOME'' \<and> t_amount t = 55 / 2 \<and> t_category t = 2)
   \<and> (orders (store_of (mark_paid (11, 0) ledger_db_paid order_1)) 1
         = Some (order_1\<lparr>o_status := ''PAID'', paid_at := Some (11, 0)\<rparr>)
       \<and> (\<exists>db'. mark_paid (11, 0) ledger_db_paid order_1 = Inl (IntegrityError, db')
             \<and> transactions db' = [(1, income_1)]))"
proof (intro conjI)
  have fit: "Order_fits order_1" by (simp add: Order_fits_def order_1_def decimal_eval)
  have row: "Order_row order_1_paid = order_1_paid"
    by (simp add: Order_row_def order_1_paid_def order_1_def decimal_eval)
  have paid: "order_1\<lparr>o_status := ''PAID'', paid_at := Some (10, 0)\<rparr> = order_1_paid"
    by (simp add: order_1_paid_def)
  have h: "\<not> (\<exists>row\<in>set (account_categories no_revenue_db).
                account_type (snd row) = ''REVENUE'')"
    by (simp add: no_revenue_db_def empty_db_def rent_def)
  note t = mark_paid_records_income [of order_1 "(10, 0)" no_revenue_db, THEN mp, OF fit]
  show "orders (store_of (mark_paid (10, 0) no_revenue_db order_1)) 1 = Some order_1_paid"
    using t [THEN conjunct1] row unfolding paid by (simp add: order_1_def)
  from t [THEN conjunct2, THEN conjunct1, THEN mp, OF h]
  obtain db' where
    "mark_paid (10, 0) no_revenue_db order_1
       = Inr (db', order_1\<lparr>o_status := ''PAID'', paid_at := Some (10, 0)\<rparr>)"
    "transactions db' = transactions no_revenue_db"
    by (elim exE conjE)
  then have "mark_paid (10, 0) no_revenue_db order_1 = Inr (db', order_1_paid)
       \<and> transactions db' = []"
    by (simp add: order_1_paid_def no_revenue_db_def empty_db_def)
  then show "\<exists>db'. mark_paid (10, 0) no_revenue_db order_1 = Inr (db', order_1_paid)
       \<and> transactions db' = []"
    by (intro exI)
next
  have fit: "Order_fits order_1" by (simp add: Order_fits_def order_1_def decimal_eval)
  have h: "(\<exists>row\<in>set (account_categories ledger_db). account_type (snd row) = ''REVENUE'')
        \<and> \<not> (\<exists>row\<in>set (transactions ledger_db).
                 transaction_number (snd row) = ''TXN-'' @ order_number order_1)"
    by (simp add: ledger_db_def empty_db_def rent_def sales_def)
  have g: "column_value 10 (total_amount order_1)"
    by (simp add: order_1_def decimal_eval)
  from mark_paid_records_income [of order_1 "(10, 0)" ledger_db, THEN mp, OF fit,
         THEN conjunct2, THEN conjunct2, THEN conjunct1, THEN mp, OF h]
  obtain db' k t c where
    r: "mark_paid (10, 0) ledger_db order_1
       = Inr (db', order_1\<lparr>o_status := ''PAID'', paid_at := Some (10, 0)\<rparr>)"
    "transactions db' = transactions ledger_db @ [(k, t)]"
    "transaction_type t = ''INCOME''"
    and am: "column_value 10 (total_amount order_1) \<longrightarrow> t_amount t = total_amount order_1"
    and c: "(t_category t, c) \<in> set (account_categories ledger_db)"
    "account_type c = ''REVENUE''"
    by (elim exE conjE)
  have a1: "t_amount t = total_amount order_1" using am g by (rule mp)
  have "mark_paid (10, 0) ledger_db order_1 = Inr (db', order_1_paid)
       \<and> transactions db' = [(k, t)]
       \<and> transaction_type t = ''INCOME'' \<and> t_amount t = 55 / 2 \<and> t_category t = 2"
    using r a1 c
    by (auto simp add: order_1_paid_def ledger_db_def empty_db_def order_1_def rent_def
          sales_def)
  then show "\<exists>db' k t. mark_paid (10, 0) ledger_db order_1 = Inr (db', order_1_paid)
       \<and> transactions db' = [(k, t)]
       \<and> transaction_type t = ''INCOME'' \<and> t_amount t = 55 / 2 \<and> t_category t = 2"
    by (intro exI)
next
  have fit: "Order_fits order_1" by (simp add: Order_fits_def order_1_def decimal_eval)
  have row: "Order_row (order_1\<lparr>o_status := ''PAID'', paid_at := Some (11, 0)\<rparr>)
               = order_1\<lparr>o_status := ''PAID'', paid_at := Some (11, 0)\<rparr>"
    by (simp add: Order_row_def order_1_def decimal_eval)
  have h: "(\<exists>row\<in>set (account_categories ledger_db_paid). account_type (snd row) = ''REVENUE'')
        \<and> (\<exists>row\<in>set (transactions ledger_db_paid).
                 transaction_number (snd row) = ''TXN-'' @ order_number order_1)"
    by (simp add: ledger_db_paid_def empty_db_def rent_def sales_def income_1_def order_1_def)
  note t = mark_paid_records_income [of order_1 "(11, 0)" ledger_db_paid, THEN mp, OF fit]
  show "orders (store_of (mark_paid (11, 0) ledger_db_paid order_1)) 1
         = Some (order_1\<lparr>o_status := ''PAID'', paid_at := Some (11, 0)\<rparr>)"
    using t [THEN conjunct1] unfolding row by (simp add: order_1_def)
  from t [THEN conjunct2, THEN conjunct2, THEN conjunct2, THEN mp, OF h]
  obtain db' where "mark_paid (11, 0) ledger_db_paid order_1 = Inl (IntegrityError, db')"
    "transactions db' = transactions ledger_db_paid"
    by (elim exE conjE)
  then have "mark_paid (11, 0) ledger_db_paid order_1 = Inl (IntegrityError, db')
             \<and> transactions db' = [(1, income_1)]"
    by (simp add: ledger_db_paid_def empty_db_def)
  then show "\<exists>db'. mark_paid (11, 0) ledger_db_paid order_1 = Inl (IntegrityError, db')
             \<and> transactions db' = [(1, income_1)]"
    by (intro exI)
qed

text \<open>
  The transaction number is derived from the order number and the column is unique.
  Marking order ORD-1 paid yields the ledger with the one transaction TXN-ORD-1; there a
  REVENUE-type category exists, yet marking the order paid again creates no Transaction:
  the insertion violates the uniqueness of the number. An order whose total in memory is
  27.504 gets a Transaction of amount 27.50. An order whose total does not fit the column
  is not saved at all: the save raises and the store is left as it was.
\<close>

theorem mark_paid_twice_counterexample:
  "mark_paid (10, 0) ledger_db order_1 = Inr (ledger_db_paid, order_1_paid)
   \<and> AccountCategory_filter_first ledger_db_paid ''REVENUE'' = Some (2, sales)
   \<and> mark_paid (11, 0) ledger_db_paid order_1_paid
       = Inl (IntegrityError,
              ledger_db_paid\<lparr>orders := [1 \<mapsto> order_1_paid\<lparr>paid_at := Some (11, 0)\<rparr>]\<rparr>)
   \<and> map (\<lambda>row. t_amount (snd row))
        (transactions (store_of
           (mark_paid (10, 0) ledger_db (order_1\<lparr>total_amount := 27504 / 1000\<rparr>))))
       = [55 / 2]
   \<and> mark_paid (10, 0) ledger_db (order_1\<lparr>total_amount := 100000000\<rparr>)
       = Inl (InvalidOperation, ledger_db)"
  by (simp add: ledger_eval ledger_db_def ledger_db_paid_def empty_db_def
        order_1_def order_1_paid_def income_1_def sales_def rent_def decimal_eval)

section \<open>Reservations\<close>

text \<open>
  C7. The uniqueness of (table, reservation_date, time_slot) is declared over all
  reservations, not over the active ones. With one CANCELLED reservation for table 4 on
  day 100 at 19:00, is_available_at reports the table free for that slot, and creating a
  PENDING reservation for the same table, day and slot fails with a uniqueness violation.
\<close>

theorem cancelled_reservation_blocks_slot:
  "r_status cancelled_booking = ''CANCELLED''
   \<and> reservations bookings_db = [(1, cancelled_booking)]
   \<and> is_available_at bookings_db 4 100 ''19:00''
   \<and> Reservation_save bookings_db new_booking = Inl (IntegrityError, bookings_db)"
  by (simp add: is_available_at_def Reservation_save_def violates_unique_together_def
        violates_unique_number_def bookings_db_def empty_db_def cancelled_booking_def
        new_booking_def)

end
